theory Spec2Isabelle
  imports Complex_Main
begin

section \<open>Cohesity Helios integration: the data the code handles\<close>

text \<open>
  The integration reads JSON documents that the Helios service returns and that the host
  hands over as command arguments. A decoded JSON document is one of Python's \<open>None\<close>,
  \<open>bool\<close>, \<open>int\<close>, \<open>str\<close>, \<open>list\<close> and \<open>dict\<close> values. A dictionary is the
  association list of its items in insertion order; its keys are distinct, and a lookup
  takes the binding of the key. JSON numbers with a fraction do not occur in the fields
  the code reads and are left out.
\<close>

datatype json =
    JNull
  | JBool bool
  | JInt int
  | JStr string
  | JList "json list"
  | JObj "(string \<times> json) list"

text \<open>The exceptions the code can raise, as values. \<open>Inl\<close> of a result is a raise.\<close>

datatype error =
    KeyError string
  | TypeError
  | AttributeError
  | ValueError string
  | OverflowError
  | DemistoException string

type_synonym 'a result = "error + 'a"

text \<open>Sequencing of two steps of which the first may raise.\<close>

definition bind :: "'a result \<Rightarrow> ('a \<Rightarrow> 'b result) \<Rightarrow> 'b result" where
  "bind r f = (case r of Inl e \<Rightarrow> Inl e | Inr v \<Rightarrow> f v)"

text \<open>
  \<open>v[k]\<close> with a string \<open>k\<close>: a dictionary raises \<open>KeyError\<close> on a missing key, a string
  or a list refuses a string index and the other values are not subscriptable.
\<close>

fun subscript :: "json \<Rightarrow> string \<Rightarrow> json result" where
  "subscript (JObj ms) k = (case map_of ms k of None \<Rightarrow> Inl (KeyError k) | Some v \<Rightarrow> Inr v)"
| "subscript _ k = Inl TypeError"

text \<open>\<open>v.get(k, d)\<close>: only a dictionary has the method.\<close>

fun dict_get :: "json \<Rightarrow> string \<Rightarrow> json \<Rightarrow> json result" where
  "dict_get (JObj ms) k d = Inr (case map_of ms k of None \<Rightarrow> d | Some v \<Rightarrow> v)"
| "dict_get _ k d = Inl AttributeError"

text \<open>
  \<open>for x in v\<close>: a list yields its elements, a dictionary its keys, a string its
  characters; the other values are not iterable.
\<close>

fun iterate :: "json \<Rightarrow> json list result" where
  "iterate (JList xs) = Inr xs"
| "iterate (JObj ms) = Inr (map (\<lambda>m. JStr (fst m)) ms)"
| "iterate (JStr s) = Inr (map (\<lambda>c. JStr [c]) s)"
| "iterate _ = Inl TypeError"

subsection \<open>The property mapping\<close>

text \<open>
  The keys of a Python dictionary are hashable values compared with \<open>==\<close>: \<open>True\<close> and
  \<open>1\<close> are one key, a list or a dictionary is refused with \<open>TypeError\<close>.
\<close>

datatype pykey = KNone | KInt int | KStr string

fun hashable :: "json \<Rightarrow> pykey result" where
  "hashable JNull = Inr KNone"
| "hashable (JBool b) = Inr (KInt (if b then 1 else 0))"
| "hashable (JInt n) = Inr (KInt n)"
| "hashable (JStr s) = Inr (KStr s)"
| "hashable (JList xs) = Inl TypeError"
| "hashable (JObj ms) = Inl TypeError"

type_synonym property_dict = "pykey \<rightharpoonup> json"

text \<open>
  The body of the loop of \<open>_get_property_dict\<close>:
  \<open>property_dict[property['key']] = property['value']\<close>. Python evaluates the right-hand
  side first, then the subscript of the target, then stores.
\<close>

definition set_property :: "property_dict \<Rightarrow> json \<Rightarrow> property_dict result" where
  "set_property d p =
     bind (subscript p ''value'') (\<lambda>v.
     bind (subscript p ''key'') (\<lambda>k.
     bind (hashable k) (\<lambda>h. Inr (d(h \<mapsto> v)))))"

fun property_loop :: "property_dict \<Rightarrow> json list \<Rightarrow> property_dict result" where
  "property_loop d [] = Inr d"
| "property_loop d (p # ps) = bind (set_property d p) (\<lambda>d'. property_loop d' ps)"

definition get_property_dict :: "json \<Rightarrow> property_dict result" where
  "get_property_dict property_list =
     bind (iterate property_list) (property_loop Map.empty)"

text \<open>\<open>property_dict.get(k)\<close> and \<open>property_dict.get(k, d)\<close> with a string \<open>k\<close>.\<close>

definition prop_get :: "property_dict \<Rightarrow> string \<Rightarrow> json \<Rightarrow> json" where
  "prop_get d k dflt = (case d (KStr k) of None \<Rightarrow> dflt | Some v \<Rightarrow> v)"

subsection \<open>Severity\<close>

text \<open>
  The levels of \<open>IncidentSeverity\<close>, a class of the host's common library. The code maps
  to four of them.
\<close>

datatype IncidentSeverity = UNKNOWN | INFO | LOW | MEDIUM | HIGH | CRITICAL

text \<open>
  \<open>convert_to_demisto_severity_int\<close> looks its argument up in a dictionary literal with
  three string keys and a default. The argument is what \<open>alert.get('severity')\<close> gave:
  any JSON value. The lookup hashes it first.
\<close>

definition convert_to_demisto_severity_int :: "json \<Rightarrow> IncidentSeverity result" where
  "convert_to_demisto_severity_int severity =
     bind (hashable severity) (\<lambda>h.
       Inr (case map_of [(KStr ''kInfo'', INFO), (KStr ''kWarning'', LOW),
                         (KStr ''kCritical'', HIGH)] h of
              None \<Rightarrow> UNKNOWN | Some s \<Rightarrow> s))"

section \<open>The client\<close>

subsection \<open>Objects and identity\<close>

text \<open>
  \<open>get_ransomware_alerts\<close> compares its list arguments with \<open>is not []\<close>, which is a
  comparison of object identities. A list is an object on a heap, known by its address;
  an argument is either an immediate value (\<open>None\<close>, a number, a string), whose identity
  never is that of a list, or a reference to a list. The heap is the sequence of the list
  objects created so far and an address is a position in it.
\<close>

type_synonym addr = nat
type_synonym heap = "json list"

datatype pyval = Imm json | Ref addr

text \<open>A reference points at an object that exists.\<close>

fun valid :: "heap \<Rightarrow> pyval \<Rightarrow> bool" where
  "valid h (Imm v) = True"
| "valid h (Ref a) = (a < length h)"

fun deref :: "heap \<Rightarrow> pyval \<Rightarrow> json" where
  "deref h (Imm v) = v"
| "deref h (Ref a) = (if a < length h then h ! a else JNull)"

text \<open>The list display \<open>[]\<close> creates a new, empty list object.\<close>

definition new_list :: "heap \<Rightarrow> addr \<times> heap" where
  "new_list h = (length h, h @ [JList []])"

text \<open>\<open>x is not []\<close>: the identity of \<open>x\<close> against the list just created.\<close>

definition is_not_new_list :: "heap \<Rightarrow> pyval \<Rightarrow> bool \<times> heap" where
  "is_not_new_list h x = (case new_list h of (a, h') \<Rightarrow> (x \<noteq> Ref a, h'))"

text \<open>
  The default values of the five list parameters are five list objects, created once when
  the \<open>def\<close> statement runs.
\<close>

definition module_heap :: heap where
  "module_heap = [JList [], JList [], JList [], JList [], JList []]"

definition default_alert_ids :: pyval where "default_alert_ids = Ref 0"
definition default_alert_state_list :: pyval where "default_alert_state_list = Ref 1"
definition default_alert_severity_list :: pyval where "default_alert_severity_list = Ref 2"
definition default_region_ids :: pyval where "default_region_ids = Ref 3"
definition default_cluster_ids :: pyval where "default_cluster_ids = Ref 4"

definition MAX_FETCH_DEFAULT :: int where "MAX_FETCH_DEFAULT = 20"

subsection \<open>Request parameters\<close>

text \<open>
  A dictionary with string keys in insertion order; \<open>d[k] = v\<close> replaces the value of an
  existing key in place and appends a new key.
\<close>

fun set_item :: "(string \<times> 'v) list \<Rightarrow> string \<Rightarrow> 'v \<Rightarrow> (string \<times> 'v) list" where
  "set_item [] k v = [(k, v)]"
| "set_item (m # ms) k v = (if fst m = k then (k, v) # ms else m # set_item ms k v)"

type_synonym params = "(string \<times> pyval) list"

text \<open>\<open>if x is not []: request_params[k] = x\<close>\<close>

definition set_if_not_new_list :: "heap \<Rightarrow> params \<Rightarrow> string \<Rightarrow> pyval \<Rightarrow> params \<times> heap" where
  "set_if_not_new_list h ps k x =
     (case is_not_new_list h x of (b, h') \<Rightarrow> (if b then set_item ps k x else ps, h'))"

text \<open>
  The first half of \<open>Client.get_ransomware_alerts\<close>: the default parameters and the
  filters. The two times are \<open>None\<close> or an integer at every call of this repository.
\<close>

definition request_params ::
  "heap \<Rightarrow> int option \<Rightarrow> int option \<Rightarrow> pyval \<Rightarrow> pyval \<Rightarrow> pyval \<Rightarrow> pyval \<Rightarrow> pyval \<Rightarrow> pyval
     \<Rightarrow> params \<times> heap" where
  "request_params h start_time_millis end_time_millis max_fetch
       alert_ids alert_state_list alert_severity_list region_ids cluster_ids =
     (let p0 = [(''maxAlerts'', max_fetch),
                (''alertCategoryList'', Imm (JStr ''kSecurity'')),
                (''alertStateList'', Imm (JStr ''kOpen'')),
                (''_includeTenantInfo'', Imm (JBool True))];
          p1 = (case start_time_millis of None \<Rightarrow> p0
                | Some t \<Rightarrow> set_item p0 ''startDateUsecs'' (Imm (JInt (t * 1000))));
          p2 = (case end_time_millis of None \<Rightarrow> p1
                | Some t \<Rightarrow> set_item p1 ''endDateUsecs'' (Imm (JInt (t * 1000))));
          (p3, h3) = set_if_not_new_list h p2 ''alertIdList'' alert_ids;
          (p4, h4) = set_if_not_new_list h3 p3 ''alertStateList'' alert_state_list;
          (p5, h5) = set_if_not_new_list h4 p4 ''alertSeverityList'' alert_severity_list;
          (p6, h6) = set_if_not_new_list h5 p5 ''region_ids'' region_ids
      in set_if_not_new_list h6 p6 ''clusterIdentifiers'' cluster_ids)"

subsection \<open>The remote service and the host\<close>

text \<open>
  A request of the client: the method with the URL suffix, and the query parameters, the
  JSON body and the headers where the method sends them. The retries of the transport are
  below this level: a request is one logical call.
\<close>

datatype request =
    GET string "(string \<times> json) list"
  | PATCH string json
  | POST string json "(string \<times> json) list"

text \<open>
  An incident as \<open>create_ransomware_incident\<close> builds it. The custom fields are
  flattened into the record.
\<close>

record incident =
  inc_name :: json
  inc_type :: string
  inc_event_id :: json
  inc_occurred :: string
  inc_alert_description :: json
  inc_alert_cause :: json
  inc_anomalous_object :: json
  inc_environment :: json
  inc_anomaly_strength :: json
  inc_rawJSON :: string
  inc_severity :: IncidentSeverity

text \<open>
  What the integration does to the outside, in the order in which it does it: a request to
  the service, \<open>demisto.setLastRun\<close>, \<open>demisto.incidents\<close>. The debug log is left
  out.
\<close>

datatype event =
    Http request
  | SetLastRun "(string \<times> json) list"
  | Incidents "incident list"

text \<open>
  The surroundings of one invocation, which the code only reads:
  \<^item> the remote service, which answers a request or fails, knowing everything that
    happened before;
  \<^item> the headers the client was built with;
  \<^item> the clock: the successive readings of \<open>datetime.now()\<close>, a naive local date and
    time, as microseconds on the wall clock since 1970-01-01T00:00:00;
  \<^item> \<open>datetime.timestamp\<close>, the seconds since the epoch of a naive local date and time,
    and \<open>time.localtime\<close>, the wall-clock seconds of a second of the epoch: both follow
    the time zone of the host;
  \<^item> Python's \<open>int\<close> on a string (\<open>None\<close> where it raises \<open>ValueError\<close>) and
    \<open>json.dumps\<close>;
  \<^item> the parameters of the integration instance and the host's incident sink, which may
    refuse what it is given.
  A Python \<open>float\<close> is taken as the exact rational number.
\<close>

record env =
  service :: "event list \<Rightarrow> request \<Rightarrow> json result"
  client_headers :: "(string \<times> json) list"
  clock :: "nat \<Rightarrow> int"
  timestamp :: "int \<Rightarrow> rat"
  localtime :: "int \<Rightarrow> int"
  int_of_str :: "string \<Rightarrow> int option"
  json_dumps :: "json \<Rightarrow> string"
  instance_params :: "(string \<times> json) list"
  incidents_sink :: "incident list \<Rightarrow> error option"

text \<open>
  What an invocation changes: the trace of events, the last-run dictionary that the host
  keeps between invocations, and how often the clock was read.
\<close>

record state =
  trace :: "event list"
  last_run :: "(string \<times> json) list"
  clock_reads :: nat

definition http_request :: "env \<Rightarrow> state \<Rightarrow> request \<Rightarrow> json result \<times> state" where
  "http_request e st req = (service e (trace st) req, st\<lparr>trace := trace st @ [Http req]\<rparr>)"

subsection \<open>Client.get_ransomware_alerts\<close>

definition RANSOMWARE_CODE :: string where
  "RANSOMWARE_CODE = ''CE01516011''"

text \<open>The loop that keeps the alerts with the ransomware code.\<close>

fun filter_loop :: "json list \<Rightarrow> json list \<Rightarrow> json list result" where
  "filter_loop ransomware_alerts [] = Inr ransomware_alerts"
| "filter_loop ransomware_alerts (alert # rest) =
     bind (subscript alert ''alertCode'') (\<lambda>c.
       filter_loop (if c = JStr RANSOMWARE_CODE then ransomware_alerts @ [alert]
                    else ransomware_alerts) rest)"

definition filter_ransomware :: "json \<Rightarrow> json list result" where
  "filter_ransomware resp = bind (iterate resp) (filter_loop [])"

text \<open>The request that \<open>get_ransomware_alerts\<close> sends, with the lists it refers to.\<close>

definition alerts_request ::
  "heap \<Rightarrow> int option \<Rightarrow> int option \<Rightarrow> pyval \<Rightarrow> pyval \<Rightarrow> pyval \<Rightarrow> pyval \<Rightarrow> pyval \<Rightarrow> pyval
     \<Rightarrow> request" where
  "alerts_request h start_time_millis end_time_millis max_fetch
       alert_ids alert_state_list alert_severity_list region_ids cluster_ids =
     (case request_params h start_time_millis end_time_millis max_fetch
             alert_ids alert_state_list alert_severity_list region_ids cluster_ids of
        (ps, h') \<Rightarrow> GET ''/mcm/alerts'' (map (\<lambda>m. (fst m, deref h' (snd m))) ps))"

definition get_ransomware_alerts ::
  "env \<Rightarrow> heap \<Rightarrow> state \<Rightarrow> int option \<Rightarrow> int option \<Rightarrow> pyval
     \<Rightarrow> pyval \<Rightarrow> pyval \<Rightarrow> pyval \<Rightarrow> pyval \<Rightarrow> pyval \<Rightarrow> json list result \<times> state" where
  "get_ransomware_alerts e h st start_time_millis end_time_millis max_fetch
       alert_ids alert_state_list alert_severity_list region_ids cluster_ids =
     (case http_request e st
             (alerts_request h start_time_millis end_time_millis max_fetch
                alert_ids alert_state_list alert_severity_list region_ids cluster_ids) of
        (r, st') \<Rightarrow> (bind r filter_ransomware, st'))"

text \<open>\<open>client.get_ransomware_alerts()\<close>: every parameter at its default.\<close>

definition get_ransomware_alerts_default :: "env \<Rightarrow> state \<Rightarrow> json list result \<times> state" where
  "get_ransomware_alerts_default e st =
     get_ransomware_alerts e module_heap st None None (Imm (JInt MAX_FETCH_DEFAULT))
       default_alert_ids default_alert_state_list default_alert_severity_list
       default_region_ids default_cluster_ids"

subsection \<open>The state-changing calls\<close>

text \<open>
  \<open>'/mcm/alerts/' + alert_id\<close> raises \<open>TypeError\<close> before any request when the id is not a
  string.
\<close>

definition patch_alert_status :: "env \<Rightarrow> state \<Rightarrow> json \<Rightarrow> string \<Rightarrow> json result \<times> state" where
  "patch_alert_status e st alert_id status =
     (case alert_id of
        JStr i \<Rightarrow> http_request e st (PATCH (''/mcm/alerts/'' @ i) (JObj [(''status'', JStr status)]))
      | _ \<Rightarrow> (Inl TypeError, st))"

definition suppress_ransomware_alert_by_id :: "env \<Rightarrow> state \<Rightarrow> json \<Rightarrow> json result \<times> state" where
  "suppress_ransomware_alert_by_id e st alert_id = patch_alert_status e st alert_id ''kSuppressed''"

definition resolve_ransomware_alert_by_id :: "env \<Rightarrow> state \<Rightarrow> json \<Rightarrow> json result \<times> state" where
  "resolve_ransomware_alert_by_id e st alert_id = patch_alert_status e st alert_id ''kResolved''"

definition restore_vm_object :: "env \<Rightarrow> state \<Rightarrow> json \<Rightarrow> json \<Rightarrow> json result \<times> state" where
  "restore_vm_object e st cluster_id payload =
     http_request e st
       (POST ''/irisservices/api/v1/public/restore/recover'' payload
          (set_item (client_headers e) ''clusterid'' cluster_id))"

section \<open>Helpers\<close>

subsection \<open>Numbers and strings\<close>

text \<open>\<open>int(v)\<close> for a JSON value; the conversion of a string is the one of the host.\<close>

fun py_int :: "env \<Rightarrow> json \<Rightarrow> int result" where
  "py_int e (JInt n) = Inr n"
| "py_int e (JBool b) = Inr (if b then 1 else 0)"
| "py_int e (JStr s) = (case int_of_str e s of None \<Rightarrow> Inl (ValueError s) | Some n \<Rightarrow> Inr n)"
| "py_int e _ = Inl TypeError"

text \<open>The operand of a true division: a number, or \<open>TypeError\<close>.\<close>

fun py_number :: "json \<Rightarrow> rat result" where
  "py_number (JInt n) = Inr (of_int n)"
| "py_number (JBool b) = Inr (if b then 1 else 0)"
| "py_number _ = Inl TypeError"

text \<open>\<open>int(x)\<close> for a float: towards zero.\<close>

definition py_trunc :: "rat \<Rightarrow> int" where
  "py_trunc x = (if x < 0 then \<lceil>x\<rceil> else \<lfloor>x\<rfloor>)"

text \<open>\<open>'literal' + v\<close>: a string, or \<open>TypeError\<close>.\<close>

fun str_concat :: "string \<Rightarrow> json \<Rightarrow> string result" where
  "str_concat lit (JStr s) = Inr (lit @ s)"
| "str_concat lit _ = Inl TypeError"

definition digit_char :: "int \<Rightarrow> char" where
  "digit_char n = ''0123456789'' ! nat (n mod 10)"

text \<open>\<open>str(n)\<close> for an integer: its decimal digits, after the sign.\<close>

function str_digits :: "int \<Rightarrow> string" where
  "str_digits n = (if n < 10 then [digit_char n] else str_digits (n div 10) @ [digit_char n])"
  by pat_completeness auto
termination
  by (relation "measure nat") auto

declare str_digits.simps [simp del]

definition str_int :: "int \<Rightarrow> string" where
  "str_int i = (if i < 0 then CHR ''-'' # str_digits (- i) else str_digits i)"

text \<open>The truth value of a JSON value in a condition.\<close>

fun truthy :: "json \<Rightarrow> bool" where
  "truthy JNull = False"
| "truthy (JBool b) = b"
| "truthy (JInt n) = (n \<noteq> 0)"
| "truthy (JStr s) = (s \<noteq> [])"
| "truthy (JList xs) = (xs \<noteq> [])"
| "truthy (JObj ms) = (ms \<noteq> [])"

text \<open>\<open>s.isdigit()\<close>, for the ASCII digits.\<close>

definition isdigit :: "string \<Rightarrow> bool" where
  "isdigit s = (s \<noteq> [] \<and> list_all (\<lambda>c. c \<in> set ''0123456789'') s)"

subsection \<open>Dates and times\<close>

text \<open>
  A naive \<open>datetime\<close> is a count of microseconds on the wall clock since
  1970-01-01T00:00:00, between the years 1 and 9999.
\<close>

type_synonym datetime = int

definition datetime_min :: datetime where
  "datetime_min = - 62135596800000000"

definition datetime_max :: datetime where
  "datetime_max = 253402300799999999"

definition datetime_now :: "env \<Rightarrow> state \<Rightarrow> datetime \<times> state" where
  "datetime_now e st = (clock e (clock_reads st), st\<lparr>clock_reads := Suc (clock_reads st)\<rparr>)"

text \<open>\<open>dt - timedelta(days=n)\<close>\<close>

definition minus_days :: "datetime \<Rightarrow> int \<Rightarrow> datetime result" where
  "minus_days dt n =
     (let r = dt - n * 86400000000
      in if datetime_min \<le> r \<and> r \<le> datetime_max then Inr r else Inl OverflowError)"

text \<open>Rounding to the nearest integer, a tie to the even one.\<close>

definition round_half_even :: "rat \<Rightarrow> int" where
  "round_half_even x =
     (let f = \<lfloor>x\<rfloor>; r = x - of_int f
      in if r < 1 / 2 then f else if 1 / 2 < r then f + 1 else if even f then f else f + 1)"

text \<open>
  \<open>datetime.fromtimestamp(t)\<close> with no time zone argument: \<open>t\<close> is rounded to a
  microsecond and the seconds are converted with \<open>time.localtime\<close>, so the result is the
  local date and time of the host.
\<close>

definition fromtimestamp :: "env \<Rightarrow> rat \<Rightarrow> datetime result" where
  "fromtimestamp e t =
     (let us = round_half_even (t * 1000000);
          dt = localtime e (us div 1000000) * 1000000 + us mod 1000000
      in if datetime_min \<le> dt \<and> dt \<le> datetime_max then Inr dt
         else Inl (ValueError ''year is out of range''))"

definition get_date_time_from_millis :: "env \<Rightarrow> rat \<Rightarrow> datetime result" where
  "get_date_time_from_millis e time_in_millis = fromtimestamp e (time_in_millis / 1000)"

definition get_millis_from_date_time :: "env \<Rightarrow> datetime \<Rightarrow> int" where
  "get_millis_from_date_time e dt = py_trunc (timestamp e dt * 1000)"

definition get_current_millis :: "env \<Rightarrow> state \<Rightarrow> int \<times> state" where
  "get_current_millis e st =
     (case datetime_now e st of (dt, st') \<Rightarrow> (py_trunc (timestamp e dt * 1000), st'))"

text \<open>The year, month and day of a count of days since 1970-01-01 (Gregorian calendar).\<close>

definition civil_from_days :: "int \<Rightarrow> int \<times> int \<times> int" where
  "civil_from_days days =
     (let z = days + 719468;
          era = z div 146097;
          doe = z mod 146097;
          yoe = (doe - doe div 1460 + doe div 36524 - doe div 146096) div 365;
          doy = doe - (365 * yoe + yoe div 4 - yoe div 100);
          mp = (5 * doy + 2) div 153;
          d = doy - (153 * mp + 2) div 5 + 1;
          m = (if mp < 10 then mp + 3 else mp - 9);
          y = yoe + era * 400 + (if m \<le> 2 then 1 else 0)
      in (y, m, d))"

definition pad2 :: "int \<Rightarrow> string" where
  "pad2 n = [digit_char (n div 10), digit_char n]"

definition pad4 :: "int \<Rightarrow> string" where
  "pad4 n = [digit_char (n div 1000), digit_char (n div 100), digit_char (n div 10),
             digit_char n]"

text \<open>
  \<open>dt.strftime(DATE_FORMAT)\<close> with \<open>DATE_FORMAT = '%Y-%m-%dT%H:%M:%SZ'\<close>: the fields
  of the date and time as they are, zero-padded, and the letter Z.
\<close>

definition strftime_DATE_FORMAT :: "datetime \<Rightarrow> string" where
  "strftime_DATE_FORMAT dt =
     (let secs = dt div 1000000;
          sod = secs mod 86400
      in case civil_from_days (secs div 86400) of
           (y, m, d) \<Rightarrow>
             pad4 y @ ''-'' @ pad2 m @ ''-'' @ pad2 d @ ''T'' @ pad2 (sod div 3600) @ '':''
               @ pad2 (sod mod 3600 div 60) @ '':'' @ pad2 (sod mod 60) @ ''Z'')"

subsection \<open>Alerts\<close>

text \<open>\<open>_get_property_dict(alert['propertyList'])\<close>\<close>

definition alert_properties :: "json \<Rightarrow> property_dict result" where
  "alert_properties alert = bind (subscript alert ''propertyList'') get_property_dict"

text \<open>\<open>restore_properties[k]\<close>\<close>

definition prop_subscript :: "property_dict \<Rightarrow> string \<Rightarrow> json result" where
  "prop_subscript d k = (case d (KStr k) of None \<Rightarrow> Inl (KeyError k) | Some v \<Rightarrow> Inr v)"

definition create_ransomware_incident :: "env \<Rightarrow> json \<Rightarrow> incident result" where
  "create_ransomware_incident e alert =
     bind (alert_properties alert) (\<lambda>property_dict.
     bind (dict_get alert ''latestTimestampUsecs'' (JInt 0)) (\<lambda>usecs.
     bind (py_number usecs) (\<lambda>n.
     bind (get_date_time_from_millis e (n / 1000)) (\<lambda>dt.
     bind (bind (subscript alert ''alertDocument'') (\<lambda>doc. subscript doc ''alertName'')) (\<lambda>alert_name.
     bind (dict_get alert ''id'' JNull) (\<lambda>event_id.
     bind (bind (subscript alert ''alertDocument'') (\<lambda>doc. subscript doc ''alertDescription''))
       (\<lambda>description.
     bind (bind (subscript alert ''alertDocument'') (\<lambda>doc. subscript doc ''alertCause'')) (\<lambda>cause.
     bind (dict_get alert ''severity'' JNull) (\<lambda>sev.
     bind (convert_to_demisto_severity_int sev) (\<lambda>mapped.
       Inr \<lparr>inc_name = alert_name,
            inc_type = ''Cohesity-Helios-Ransomware-Incident'',
            inc_event_id = event_id,
            inc_occurred = strftime_DATE_FORMAT dt,
            inc_alert_description = description,
            inc_alert_cause = cause,
            inc_anomalous_object = prop_get property_dict ''object'' JNull,
            inc_environment = prop_get property_dict ''environment'' JNull,
            inc_anomaly_strength = prop_get property_dict ''anomalyStrength'' JNull,
            inc_rawJSON = json_dumps e alert,
            inc_severity = mapped\<rparr>))))))))))"

section \<open>Commands\<close>

text \<open>
  The host hands the arguments of a command over as strings; \<open>args.get(k)\<close> is \<open>None\<close>
  for an argument that was not given.
\<close>

type_synonym args = "(string \<times> string) list"

text \<open>\<open>v == object_name\<close>, for a JSON value and an argument.\<close>

definition eq_arg :: "json \<Rightarrow> string option \<Rightarrow> bool" where
  "eq_arg v a = (case a of None \<Rightarrow> v = JNull | Some s \<Rightarrow> v = JStr s)"

text \<open>An argument inside an f-string.\<close>

definition format_arg :: "string option \<Rightarrow> string" where
  "format_arg a = (case a of None \<Rightarrow> ''None'' | Some s \<Rightarrow> s)"

text \<open>\<open>property_dict.get('object', "") == object_name\<close>\<close>

definition matches_object :: "property_dict \<Rightarrow> string option \<Rightarrow> bool" where
  "matches_object d object_name = eq_arg (prop_get d ''object'' (JStr [])) object_name"

subsection \<open>ignore_ransomware_anomaly_command\<close>

text \<open>
  The loop over the fetched alerts. Its value is \<open>alert_id\<close> after the loop: the \<open>id\<close> of
  the alert at which it broke off, or the initial empty string.
\<close>

fun ignore_loop :: "string option \<Rightarrow> json list \<Rightarrow> json result" where
  "ignore_loop object_name [] = Inr (JStr [])"
| "ignore_loop object_name (alert # rest) =
     bind (alert_properties alert) (\<lambda>property_dict.
       if matches_object property_dict object_name then dict_get alert ''id'' JNull
       else ignore_loop object_name rest)"

definition ignore_ransomware_anomaly_command :: "env \<Rightarrow> state \<Rightarrow> args \<Rightarrow> string result \<times> state" where
  "ignore_ransomware_anomaly_command e st args =
     (let object_name = map_of args ''object_name''
      in case get_ransomware_alerts_default e st of
           (Inl err, st1) \<Rightarrow> (Inl err, st1)
         | (Inr resp, st1) \<Rightarrow>
             (case ignore_loop object_name resp of
                Inl err \<Rightarrow> (Inl err, st1)
              | Inr alert_id \<Rightarrow>
                  if alert_id = JStr []
                  then (Inl (ValueError
                          (''CohesityHelios error: no anomalous object found by the given name: ''
                             @ format_arg object_name @ ''. '')), st1)
                  else (case suppress_ransomware_alert_by_id e st1 alert_id of
                          (Inl err, st2) \<Rightarrow> (Inl err, st2)
                        | (Inr _, st2) \<Rightarrow>
                            (Inr (''Ignored object '' @ format_arg object_name @ ''.''), st2))))"

subsection \<open>restore_latest_clean_snapshot\<close>

text \<open>
  The test at the head of the loop body,
  \<open>alert['severity'] == 'kCritical' and alert['alertState'] == 'kOpen'\<close>, which reads the
  state only of a critical alert.
\<close>

definition critical_and_open :: "json \<Rightarrow> bool result" where
  "critical_and_open alert =
     bind (subscript alert ''severity'') (\<lambda>sev.
       if sev = JStr ''kCritical''
       then bind (subscript alert ''alertState'') (\<lambda>state. Inr (state = JStr ''kOpen''))
       else Inr False)"

text \<open>
  The loop carries \<open>alert_id\<close> and \<open>restore_properties\<close>; the latter is overwritten at
  every critical and open alert, also at one that does not match.
\<close>

fun restore_loop ::
  "string option \<Rightarrow> json \<times> property_dict \<Rightarrow> json list \<Rightarrow> (json \<times> property_dict) result" where
  "restore_loop object_name acc [] = Inr acc"
| "restore_loop object_name acc (alert # rest) =
     bind (critical_and_open alert) (\<lambda>b.
       if b
       then bind (alert_properties alert) (\<lambda>restore_properties.
              if matches_object restore_properties object_name
              then bind (subscript alert ''id'') (\<lambda>alert_id. Inr (alert_id, restore_properties))
              else restore_loop object_name (fst acc, restore_properties) rest)
       else restore_loop object_name acc rest)"

text \<open>The entry of \<open>objects\<close> in the request payload.\<close>

definition restore_object :: "env \<Rightarrow> property_dict \<Rightarrow> json result" where
  "restore_object e restore_properties =
     bind (bind (prop_subscript restore_properties ''jobId'') (py_int e)) (\<lambda>job_id.
     bind (bind (prop_subscript restore_properties ''jobInstanceId'') (py_int e)) (\<lambda>job_run_id.
     bind (bind (prop_subscript restore_properties ''jobStartTimeUsecs'') (py_int e)) (\<lambda>started.
     bind (prop_subscript restore_properties ''object'') (\<lambda>source_name.
     bind (bind (prop_subscript restore_properties ''entityId'') (py_int e)) (\<lambda>source_id.
       Inr (JObj [(''jobId'', JInt job_id),
                  (''jobRunId'', JInt job_run_id),
                  (''startedTimeUsecs'', JInt started),
                  (''sourceName'', source_name),
                  (''protectionSourceId'', JInt source_id)]))))))"

definition request_payload :: "string \<Rightarrow> int \<Rightarrow> json \<Rightarrow> json" where
  "request_payload task_name millis obj =
     JObj [(''name'', JStr task_name),
           (''type'', JStr ''kRecoverVMs''),
           (''vmwareParameters'',
              JObj [(''poweredOn'', JBool True),
                    (''prefix'', JStr ''Recover-''),
                    (''suffix'', JStr (''-VM-'' @ str_int millis))]),
           (''objects'', JList [obj])]"

text \<open>
  The request payload and the cluster id, from the properties of the matched alert. The
  name is built first, then the clock is read for the suffix, then the object entry and
  the cluster id are read.
\<close>

definition build_restore_request ::
  "env \<Rightarrow> state \<Rightarrow> property_dict \<Rightarrow> (json \<times> json) result \<times> state" where
  "build_restore_request e st restore_properties =
     (case bind (prop_subscript restore_properties ''object'')
             (str_concat ''Cortex_XSOAR_triggered_restore_task_'') of
        Inl err \<Rightarrow> (Inl err, st)
      | Inr task_name \<Rightarrow>
          (case get_current_millis e st of
             (millis, st') \<Rightarrow>
               (bind (restore_object e restore_properties) (\<lambda>obj.
                bind (prop_subscript restore_properties ''cid'') (\<lambda>cluster_id.
                  Inr (cluster_id, request_payload task_name millis obj))), st')))"

text \<open>The last two calls: the restore request, then the resolution of the alert.\<close>

definition restore_then_resolve ::
  "env \<Rightarrow> state \<Rightarrow> json \<Rightarrow> json \<Rightarrow> json \<Rightarrow> unit result \<times> state" where
  "restore_then_resolve e st cluster_id payload alert_id =
     (case restore_vm_object e st cluster_id payload of
        (Inl err, st1) \<Rightarrow> (Inl err, st1)
      | (Inr _, st1) \<Rightarrow>
          (case resolve_ransomware_alert_by_id e st1 alert_id of
             (Inl err, st2) \<Rightarrow> (Inl err, st2)
           | (Inr _, st2) \<Rightarrow> (Inr (), st2)))"

definition restore_latest_clean_snapshot :: "env \<Rightarrow> state \<Rightarrow> args \<Rightarrow> string result \<times> state" where
  "restore_latest_clean_snapshot e st args =
     (let object_name = map_of args ''object_name''
      in case get_ransomware_alerts_default e st of
           (Inl err, st1) \<Rightarrow> (Inl err, st1)
         | (Inr resp, st1) \<Rightarrow>
             (case restore_loop object_name (JStr [], Map.empty) resp of
                Inl err \<Rightarrow> (Inl err, st1)
              | Inr (alert_id, restore_properties) \<Rightarrow>
                  if alert_id = JStr []
                  then (Inl (ValueError
                          (''CohesityHelios error: no anomalous object found by the given name ''
                             @ format_arg object_name @ ''.'')), st1)
                  else
                    (case build_restore_request e st1 restore_properties of
                       (Inl err, st2) \<Rightarrow> (Inl err, st2)
                     | (Inr (cluster_id, payload), st2) \<Rightarrow>
                         (case restore_then_resolve e st2 cluster_id payload alert_id of
                            (Inl err, st3) \<Rightarrow> (Inl err, st3)
                          | (Inr _, st3) \<Rightarrow>
                              (Inr (''Restored object '' @ format_arg object_name @ ''.''),
                               st3)))))"

subsection \<open>fetch_incidents_command\<close>

text \<open>
  The start and the end of the window to fetch. The start is the stored \<open>start_time\<close>
  when the last run is not empty and has the key; otherwise the clock is read and seven
  days are taken off. The end is a reading of the clock of its own.
\<close>

definition fetch_window :: "env \<Rightarrow> state \<Rightarrow> (int \<times> int) result \<times> state" where
  "fetch_window e st =
     (case (if last_run st \<noteq> [] then map_of (last_run st) ''start_time'' else None) of
        Some stored \<Rightarrow>
          (case py_int e stored of
             Inl err \<Rightarrow> (Inl err, st)
           | Inr start_time_millis \<Rightarrow>
               (case get_current_millis e st of
                  (end_time_millis, st1) \<Rightarrow> (Inr (start_time_millis, end_time_millis), st1)))
      | None \<Rightarrow>
          (case datetime_now e st of
             (dt, st1) \<Rightarrow>
               (case minus_days dt 7 of
                  Inl err \<Rightarrow> (Inl err, st1)
                | Inr dt' \<Rightarrow>
                    (case get_current_millis e st1 of
                       (end_time_millis, st2) \<Rightarrow>
                         (Inr (get_millis_from_date_time e dt', end_time_millis), st2)))))"

text \<open>
  \<open>int(params.get('max_fetch')) if (max_fetch and max_fetch.isdigit()) else
  MAX_FETCH_DEFAULT\<close>: only a string has \<open>isdigit\<close>.
\<close>

definition fetch_limit :: "env \<Rightarrow> int result" where
  "fetch_limit e =
     (case map_of (instance_params e) ''max_fetch'' of
        None \<Rightarrow> Inr MAX_FETCH_DEFAULT
      | Some max_fetch \<Rightarrow>
          if truthy max_fetch
          then (case max_fetch of
                  JStr s \<Rightarrow> if isdigit s then py_int e max_fetch else Inr MAX_FETCH_DEFAULT
                | _ \<Rightarrow> Inl AttributeError)
          else Inr MAX_FETCH_DEFAULT)"

fun incidents_loop :: "env \<Rightarrow> incident list \<Rightarrow> json list \<Rightarrow> incident list result" where
  "incidents_loop e incidents [] = Inr incidents"
| "incidents_loop e incidents (alert # rest) =
     bind (create_ransomware_incident e alert) (\<lambda>incident.
       incidents_loop e (incidents @ [incident]) rest)"

definition set_last_run :: "state \<Rightarrow> (string \<times> json) list \<Rightarrow> state" where
  "set_last_run st obj = st\<lparr>trace := trace st @ [SetLastRun obj], last_run := obj\<rparr>"

definition demisto_incidents :: "env \<Rightarrow> state \<Rightarrow> incident list \<Rightarrow> unit result \<times> state" where
  "demisto_incidents e st incidents =
     ((case incidents_sink e incidents of None \<Rightarrow> Inr () | Some err \<Rightarrow> Inl err),
      st\<lparr>trace := trace st @ [Incidents incidents]\<rparr>)"

definition fetch_incidents_command :: "env \<Rightarrow> state \<Rightarrow> unit result \<times> state" where
  "fetch_incidents_command e st =
     (case fetch_window e st of
        (Inl err, st1) \<Rightarrow> (Inl err, st1)
      | (Inr (start_time_millis, end_time_millis), st1) \<Rightarrow>
          (case fetch_limit e of
             Inl err \<Rightarrow> (Inl err, st1)
           | Inr max_fetch \<Rightarrow>
               (case get_ransomware_alerts e module_heap st1
                       (Some start_time_millis) (Some end_time_millis) (Imm (JInt max_fetch))
                       default_alert_ids default_alert_state_list default_alert_severity_list
                       default_region_ids default_cluster_ids of
                  (Inl err, st2) \<Rightarrow> (Inl err, st2)
                | (Inr ransomware_resp, st2) \<Rightarrow>
                    (case incidents_loop e [] ransomware_resp of
                       Inl err \<Rightarrow> (Inl err, st2)
                     | Inr incidents \<Rightarrow>
                         demisto_incidents e
                           (set_last_run st2 [(''start_time'', JInt end_time_millis)])
                           incidents))))"

section \<open>Reading aids for the properties\<close>

text \<open>
  The key and the value that the flattener takes from one element of a property list, when
  the element has both and the key is hashable.
\<close>

definition key_value :: "json \<Rightarrow> (pykey \<times> json) option" where
  "key_value p =
     (case subscript p ''value'' of
        Inl _ \<Rightarrow> None
      | Inr v \<Rightarrow>
          (case subscript p ''key'' of
             Inl _ \<Rightarrow> None
           | Inr k \<Rightarrow> (case hashable k of Inl _ \<Rightarrow> None | Inr h \<Rightarrow> Some (h, v))))"

text \<open>A query parameter of a request.\<close>

fun request_param :: "request \<Rightarrow> string \<Rightarrow> json option" where
  "request_param (GET u ps) k = map_of ps k"
| "request_param _ k = None"

text \<open>The requests that change the state of the service.\<close>

fun state_changing :: "event \<Rightarrow> bool" where
  "state_changing (Http (PATCH u b)) = True"
| "state_changing (Http (POST u b hs)) = True"
| "state_changing _ = False"

text \<open>\<open>client.get_ransomware_alerts()\<close> sends this request.\<close>

definition default_alerts_request :: request where
  "default_alerts_request =
     alerts_request module_heap None None (Imm (JInt MAX_FETCH_DEFAULT))
       default_alert_ids default_alert_state_list default_alert_severity_list
       default_region_ids default_cluster_ids"


definition resolve_request :: "string \<Rightarrow> request" where
  "resolve_request i = PATCH (''/mcm/alerts/'' @ i) (JObj [(''status'', JStr ''kResolved'')])"

text \<open>
  What the two scans ask of an alert. An alert has properties when its property list
  flattens; its object is the target when the test of the loops,
  \<open>property_dict.get('object', "") == object_name\<close>, is true of the flattened list.
\<close>

definition has_properties :: "json \<Rightarrow> bool" where
  "has_properties alert = (case alert_properties alert of Inl _ \<Rightarrow> False | Inr _ \<Rightarrow> True)"

definition object_is :: "string option \<Rightarrow> json \<Rightarrow> bool" where
  "object_is object_name alert =
     (case alert_properties alert of Inl _ \<Rightarrow> False | Inr d \<Rightarrow> matches_object d object_name)"

text \<open>The three conditions of the restore scan.\<close>

definition restore_candidate :: "string option \<Rightarrow> json \<Rightarrow> bool" where
  "restore_candidate object_name alert =
     (subscript alert ''severity'' = Inr (JStr ''kCritical'')
      \<and> subscript alert ''alertState'' = Inr (JStr ''kOpen'')
      \<and> object_is object_name alert)"

text \<open>
  The restore scan can pass an alert: it has a severity, a critical alert has a state, and
  a critical and open alert has properties.
\<close>

definition restore_readable :: "json \<Rightarrow> bool" where
  "restore_readable alert =
     (case critical_and_open alert of
        Inl _ \<Rightarrow> False
      | Inr b \<Rightarrow> if b then has_properties alert else True)"

definition restore_request :: "json \<Rightarrow> (string \<times> json) list \<Rightarrow> request" where
  "restore_request payload hs = POST ''/irisservices/api/v1/public/restore/recover'' payload hs"

text \<open>
  The occurrence time as the specification words it: the UTC date and time of a count of
  microseconds since the epoch, to the second, in the format \<open>%Y-%m-%dT%H:%M:%SZ\<close>.
\<close>

definition utc_iso8601 :: "int \<Rightarrow> string" where
  "utc_iso8601 usecs = strftime_DATE_FORMAT (usecs div 1000000 * 1000000)"

section \<open>Example data\<close>

definition example_property :: "string \<Rightarrow> string \<Rightarrow> json" where
  "example_property k v = JObj [(''key'', JStr k), (''value'', JStr v)]"

definition example_alert :: "string \<Rightarrow> string \<Rightarrow> string \<Rightarrow> string \<Rightarrow> string \<Rightarrow> json" where
  "example_alert i code sev state obj =
     JObj [(''id'', JStr i),
           (''alertCode'', JStr code),
           (''severity'', JStr sev),
           (''alertState'', JStr state),
           (''latestTimestampUsecs'', JInt 1631471400000000),
           (''alertDocument'',
              JObj [(''alertName'', JStr ''Anomaly''),
                    (''alertDescription'', JStr ''Anomalous change''),
                    (''alertCause'', JStr ''Ransomware'')]),
           (''propertyList'',
              JList [example_property ''object'' obj,
                     example_property ''environment'' ''kVMware'',
                     example_property ''anomalyStrength'' ''80'',
                     example_property ''jobId'' ''12'',
                     example_property ''jobInstanceId'' ''34'',
                     example_property ''jobStartTimeUsecs'' ''56'',
                     example_property ''entityId'' ''78'',
                     example_property ''cid'' ''90''])]"

text \<open>A decimal reading of a string of digits, for the host of the examples.\<close>

definition example_int_of_str :: "string \<Rightarrow> int option" where
  "example_int_of_str s =
     (if isdigit s then Some (foldl (\<lambda>a c. 10 * a + (int (of_char c) - 48)) 0 s) else None)"

text \<open>
  A host in UTC whose service gives fixed answers to the three kinds of request, and whose
  clock starts at 2021-09-12T18:30:00.
\<close>

definition example_env :: "json result \<Rightarrow> json result \<Rightarrow> json result \<Rightarrow> env" where
  "example_env get_answer post_answer patch_answer =
     \<lparr>service = (\<lambda>tr req. case req of
                    GET u ps \<Rightarrow> get_answer
                  | PATCH u b \<Rightarrow> patch_answer
                  | POST u b hs \<Rightarrow> post_answer),
      client_headers = [(''apikey'', JStr ''secret''), (''Content-Type'', JStr ''application/json'')],
      clock = (\<lambda>n. 1631471400000000 + 1000 * int n),
      timestamp = (\<lambda>dt. of_int dt / 1000000),
      localtime = (\<lambda>t. t),
      int_of_str = example_int_of_str,
      json_dumps = (\<lambda>v. ''{}''),
      instance_params = [(''max_fetch'', JStr ''50'')],
      incidents_sink = (\<lambda>incidents. None)\<rparr>"

definition example_state :: "(string \<times> json) list \<Rightarrow> state" where
  "example_state stored = \<lparr>trace = [], last_run = stored, clock_reads = 0\<rparr>"

text \<open>A response with two ransomware alerts and an alert of another code between them.\<close>

definition example_response :: json where
  "example_response =
     JList [example_alert ''1'' ''CE01516011'' ''kWarning'' ''kOpen'' ''vm-a'',
            example_alert ''7'' ''CE00000000'' ''kCritical'' ''kOpen'' ''vm-b'',
            example_alert ''2'' ''CE01516011'' ''kCritical'' ''kOpen'' ''vm-b'']"

text \<open>The flattened property list of an example alert.\<close>

definition example_properties :: "string \<Rightarrow> property_dict" where
  "example_properties obj =
     [KStr ''object'' \<mapsto> JStr obj,
      KStr ''environment'' \<mapsto> JStr ''kVMware'',
      KStr ''anomalyStrength'' \<mapsto> JStr ''80'',
      KStr ''jobId'' \<mapsto> JStr ''12'',
      KStr ''jobInstanceId'' \<mapsto> JStr ''34'',
      KStr ''jobStartTimeUsecs'' \<mapsto> JStr ''56'',
      KStr ''entityId'' \<mapsto> JStr ''78'',
      KStr ''cid'' \<mapsto> JStr ''90'']"


text \<open>The same host with its time zone one hour east of UTC.\<close>

definition example_env_east :: env where
  "example_env_east =
     (example_env (Inr example_response) (Inr JNull) (Inr JNull))
       \<lparr>timestamp := (\<lambda>dt. of_int (dt - 3600000000) / 1000000),
        localtime := (\<lambda>t. t + 3600)\<rparr>"

text \<open>A well-formed alert with no \<open>latestTimestampUsecs\<close>.\<close>

definition example_alert_without_time :: json where
  "example_alert_without_time =
     JObj [(''id'', JStr ''3''),
           (''alertCode'', JStr ''CE01516011''),
           (''severity'', JStr ''kCritical''),
           (''alertState'', JStr ''kOpen''),
           (''alertDocument'',
              JObj [(''alertName'', JStr ''Anomaly''),
                    (''alertDescription'', JStr ''Anomalous change''),
                    (''alertCause'', JStr ''Ransomware'')]),
           (''propertyList'', JList [example_property ''object'' ''vm-c''])]"

section \<open>Properties\<close>

lemma bind_Inr [simp]: "bind (Inr v) f = f v"
  by (simp add: bind_def)

lemma bind_Inl [simp]: "bind (Inl e) f = Inl e"
  by (simp add: bind_def)

text \<open>
  Claim C8. The severity mapping is total on strings and never raises: \<open>kInfo\<close> gives
  INFO, \<open>kWarning\<close> gives LOW, \<open>kCritical\<close> gives HIGH and every other string gives
  UNKNOWN.
\<close>

theorem severity_mapping_total:
  "convert_to_demisto_severity_int (JStr s) =
     Inr (if s = ''kInfo'' then INFO
          else if s = ''kWarning'' then LOW
          else if s = ''kCritical'' then HIGH
          else UNKNOWN)"
  by (simp add: convert_to_demisto_severity_int_def)

subsection \<open>The alert filter\<close>

lemma filter_loop_inr:
  "filter_loop acc xs = Inr ys \<Longrightarrow>
     ys = acc @ filter (\<lambda>a. subscript a ''alertCode'' = Inr (JStr RANSOMWARE_CODE)) xs"
proof (induction xs arbitrary: acc)
  case Nil
  then show ?case by simp
next
  case (Cons a xs)
  show ?case
  proof (cases "subscript a ''alertCode''")
    case (Inl err)
    with Cons.prems show ?thesis by simp
  next
    case (Inr c)
    with Cons.prems Cons.IH [of "if c = JStr RANSOMWARE_CODE then acc @ [a] else acc"]
    show ?thesis by (simp split: if_splits)
  qed
qed

lemma filter_loop_total:
  "\<forall>a \<in> set xs. \<exists>c. subscript a ''alertCode'' = Inr c \<Longrightarrow>
     filter_loop acc xs =
       Inr (acc @ filter (\<lambda>a. subscript a ''alertCode'' = Inr (JStr RANSOMWARE_CODE)) xs)"
proof (induction xs arbitrary: acc)
  case Nil
  then show ?case by simp
next
  case (Cons a xs)
  then show ?case by auto
qed

lemma alerts_request_is_GET:
  "\<exists>ps. alerts_request h start_time end_time max_fetch ids states sevs regions clusters
         = GET ''/mcm/alerts'' ps"
  by (simp add: alerts_request_def split: prod.splits)

lemma example_env_service [simp]:
  "service (example_env g p q) tr (GET u ps) = g"
  "service (example_env g p q) tr (POST u b hs) = p"
  "service (example_env g p q) tr (PATCH u b) = q"
  by (simp_all add: example_env_def)

lemma example_env_answers_alerts_request:
  "service (example_env g p q) tr
     (alerts_request h start_time end_time max_fetch ids states sevs regions clusters) = g"
proof -
  obtain ps where
    "alerts_request h start_time end_time max_fetch ids states sevs regions clusters
       = GET ''/mcm/alerts'' ps"
    using alerts_request_is_GET by blast
  then show ?thesis by simp
qed

text \<open>
  Claim C1. When the service answers the request of \<open>Client.get_ransomware_alerts\<close> with
  a list, the method returns exactly the alerts of the list whose \<open>alertCode\<close> is
  \<open>CE01516011\<close>, in the order of the response: it does so whenever every element of the
  list has an \<open>alertCode\<close>, and whatever it returns is that sublist. The commands take
  their alerts from this method only.
\<close>

theorem get_ransomware_alerts_filter:
  assumes "service e (trace st)
             (alerts_request h start_time end_time max_fetch ids states sevs regions clusters)
           = Inr (JList resp)"
  shows "((\<forall>a \<in> set resp. \<exists>c. subscript a ''alertCode'' = Inr c) \<longrightarrow>
            fst (get_ransomware_alerts e h st start_time end_time max_fetch
                   ids states sevs regions clusters)
            = Inr (filter (\<lambda>a. subscript a ''alertCode'' = Inr (JStr ''CE01516011'')) resp))
       \<and> (\<forall>alerts.
            fst (get_ransomware_alerts e h st start_time end_time max_fetch
                   ids states sevs regions clusters) = Inr alerts \<longrightarrow>
            alerts = filter (\<lambda>a. subscript a ''alertCode'' = Inr (JStr ''CE01516011'')) resp)"
proof -
  have run: "fst (get_ransomware_alerts e h st start_time end_time max_fetch
                   ids states sevs regions clusters) = filter_loop [] resp"
    using assms by (simp add: get_ransomware_alerts_def http_request_def filter_ransomware_def)
  have total: "filter_loop [] resp
      = Inr (filter (\<lambda>a. subscript a ''alertCode'' = Inr (JStr ''CE01516011'')) resp)"
    if "\<forall>a \<in> set resp. \<exists>c. subscript a ''alertCode'' = Inr c"
    using filter_loop_total [OF that, of "[]"] by (simp add: RANSOMWARE_CODE_def)
  have exact: "alerts = filter (\<lambda>a. subscript a ''alertCode'' = Inr (JStr ''CE01516011'')) resp"
    if "filter_loop [] resp = Inr alerts" for alerts
    using filter_loop_inr [OF that] by (simp add: RANSOMWARE_CODE_def)
  from total exact show ?thesis
    unfolding run by blast
qed

lemma example_alert_code [simp]:
  "subscript (example_alert i code sev state obj) ''alertCode'' = Inr (JStr code)"
  by (simp add: example_alert_def)

theorem get_ransomware_alerts_filter_witness:
  "service (example_env (Inr example_response) (Inr JNull) (Inr JNull)) (trace (example_state []))
     default_alerts_request = Inr example_response
   \<and> example_response =
       JList [example_alert ''1'' ''CE01516011'' ''kWarning'' ''kOpen'' ''vm-a'',
              example_alert ''7'' ''CE00000000'' ''kCritical'' ''kOpen'' ''vm-b'',
              example_alert ''2'' ''CE01516011'' ''kCritical'' ''kOpen'' ''vm-b'']
   \<and> fst (get_ransomware_alerts_default
            (example_env (Inr example_response) (Inr JNull) (Inr JNull)) (example_state []))
       = Inr [example_alert ''1'' ''CE01516011'' ''kWarning'' ''kOpen'' ''vm-a'',
              example_alert ''2'' ''CE01516011'' ''kCritical'' ''kOpen'' ''vm-b'']"
proof -
  let ?e = "example_env (Inr example_response) (Inr JNull) (Inr JNull)"
  let ?resp = "[example_alert ''1'' ''CE01516011'' ''kWarning'' ''kOpen'' ''vm-a'',
                example_alert ''7'' ''CE00000000'' ''kCritical'' ''kOpen'' ''vm-b'',
                example_alert ''2'' ''CE01516011'' ''kCritical'' ''kOpen'' ''vm-b'']"
  have resp: "example_response = JList ?resp"
    by (simp add: example_response_def)
  have answer: "service ?e (trace (example_state []))
       (alerts_request module_heap None None (Imm (JInt MAX_FETCH_DEFAULT))
          default_alert_ids default_alert_state_list default_alert_severity_list
          default_region_ids default_cluster_ids) = Inr (JList ?resp)"
    unfolding example_env_answers_alerts_request by (simp add: resp)
  have codes: "\<forall>a \<in> set ?resp. \<exists>c. subscript a ''alertCode'' = Inr c"
    by simp
  from get_ransomware_alerts_filter [OF answer] codes
  have "fst (get_ransomware_alerts ?e module_heap (example_state []) None None
               (Imm (JInt MAX_FETCH_DEFAULT))
               default_alert_ids default_alert_state_list default_alert_severity_list
               default_region_ids default_cluster_ids)
        = Inr (filter (\<lambda>a. subscript a ''alertCode'' = Inr (JStr ''CE01516011'')) ?resp)"
    by blast
  then have "fst (get_ransomware_alerts_default ?e (example_state []))
        = Inr [example_alert ''1'' ''CE01516011'' ''kWarning'' ''kOpen'' ''vm-a'',
               example_alert ''2'' ''CE01516011'' ''kCritical'' ''kOpen'' ''vm-b'']"
    by (simp add: get_ransomware_alerts_default_def)
  moreover have "service ?e (trace (example_state [])) default_alerts_request
        = Inr example_response"
    unfolding default_alerts_request_def example_env_answers_alerts_request ..
  ultimately show ?thesis
    using resp by simp
qed

subsection \<open>The property mapping\<close>

lemma set_property_key_value:
  "key_value p = Some (k, v) \<Longrightarrow> set_property d p = Inr (d(k \<mapsto> v))"
  by (auto simp: key_value_def set_property_def split: sum.splits)

lemma property_loop_well_formed:
  "\<forall>p \<in> set ps. key_value p \<noteq> None \<Longrightarrow>
   property_loop d ps = Inr (d ++ map_of (rev (map (\<lambda>p. the (key_value p)) ps)))"
proof (induction ps arbitrary: d)
  case Nil
  then show ?case by simp
next
  case (Cons p ps)
  then obtain k v where kv: "key_value p = Some (k, v)" by fastforce
  from Cons have "property_loop (d(k \<mapsto> v)) ps =
      Inr (d(k \<mapsto> v) ++ map_of (rev (map (\<lambda>p. the (key_value p)) ps)))"
    by simp
  then show ?case
    using kv by (simp add: set_property_key_value map_add_upd_left)
qed

lemma map_of_rev_last:
  assumes "i < length kvs" and "kvs ! i = (k, v)"
    and "\<forall>j. i < j \<and> j < length kvs \<longrightarrow> fst (kvs ! j) \<noteq> k"
  shows "map_of (rev kvs) k = Some v"
proof -
  have split: "kvs = take i kvs @ (k, v) # drop (Suc i) kvs"
    using assms(1,2) by (metis id_take_nth_drop)
  have "k \<notin> fst ` set (drop (Suc i) kvs)"
  proof
    assume "k \<in> fst ` set (drop (Suc i) kvs)"
    then obtain x where x: "x \<in> set (drop (Suc i) kvs)" and fx: "fst x = k" by auto
    then obtain n where n: "n < length (drop (Suc i) kvs)" and "drop (Suc i) kvs ! n = x"
      by (auto simp: in_set_conv_nth)
    then have at: "kvs ! (Suc i + n) = x" and inside: "Suc i + n < length kvs"
      by auto
    have "i < Suc i + n" by simp
    with assms(3) inside have "fst (kvs ! (Suc i + n)) \<noteq> k" by blast
    with at fx show False by simp
  qed
  then have none: "map_of (rev (drop (Suc i) kvs)) k = None"
    by (simp add: map_of_eq_None_iff)
  have "map_of (rev kvs) k =
          map_of (rev (drop (Suc i) kvs) @ (k, v) # rev (take i kvs)) k"
    by (subst split) simp
  also have "\<dots> = Some v"
    using none by (simp add: map_add_def)
  finally show ?thesis .
qed

text \<open>
  Claim C9. The flattener is a function of the property list alone. On a list of elements
  that each have a key and a value it returns a mapping whose keys are exactly the keys
  that occur in the list, and a key maps to the value of its last occurrence.
\<close>

theorem flatten_last_occurrence:
  assumes "\<forall>p \<in> set ps. key_value p \<noteq> None"
  shows "\<exists>d. get_property_dict (JList ps) = Inr d
           \<and> dom d = (\<lambda>p. fst (the (key_value p))) ` set ps
           \<and> (\<forall>i k v. i < length ps \<and> key_value (ps ! i) = Some (k, v)
                  \<and> (\<forall>j. i < j \<and> j < length ps \<longrightarrow> fst (the (key_value (ps ! j))) \<noteq> k)
                \<longrightarrow> d k = Some v)"
proof -
  let ?kvs = "map (\<lambda>p. the (key_value p)) ps"
  let ?d = "map_of (rev ?kvs)"
  have run: "get_property_dict (JList ps) = Inr ?d"
    using property_loop_well_formed [OF assms, of Map.empty]
    by (simp add: get_property_dict_def)
  have keys: "dom ?d = (\<lambda>p. fst (the (key_value p))) ` set ps"
    by (simp add: dom_map_of_conv_image_fst image_image)
  have last: "?d k = Some v"
    if "i < length ps" and "key_value (ps ! i) = Some (k, v)"
      and "\<forall>j. i < j \<and> j < length ps \<longrightarrow> fst (the (key_value (ps ! j))) \<noteq> k"
    for i k v
    using that by (intro map_of_rev_last [of i]) simp_all
  from run keys last show ?thesis by blast
qed

theorem flatten_last_occurrence_witness:
  "key_value (JObj [(''key'', JStr ''object''), (''value'', JStr ''vm-a'')]) \<noteq> None
   \<and> key_value (JObj [(''value'', JStr ''vm-b''), (''key'', JStr ''object'')]) \<noteq> None
   \<and> (\<exists>d. get_property_dict (JList
          [JObj [(''key'', JStr ''object''), (''value'', JStr ''vm-a'')],
           JObj [(''value'', JStr ''vm-b''), (''key'', JStr ''object'')]]) = Inr d
        \<and> dom d = {KStr ''object''}
        \<and> d (KStr ''object'') = Some (JStr ''vm-b''))"
proof -
  let ?p0 = "JObj [(''key'', JStr ''object''), (''value'', JStr ''vm-a'')]"
  let ?p1 = "JObj [(''value'', JStr ''vm-b''), (''key'', JStr ''object'')]"
  have kv0: "key_value ?p0 = Some (KStr ''object'', JStr ''vm-a'')"
    by (simp add: key_value_def)
  have kv1: "key_value ?p1 = Some (KStr ''object'', JStr ''vm-b'')"
    by (simp add: key_value_def)
  have wf: "\<forall>p \<in> set [?p0, ?p1]. key_value p \<noteq> None"
    by (simp add: kv0 kv1)
  from flatten_last_occurrence [OF wf] obtain d where
    run: "get_property_dict (JList [?p0, ?p1]) = Inr d"
    and keys: "dom d = (\<lambda>p. fst (the (key_value p))) ` set [?p0, ?p1]"
    and last: "\<forall>i k v. i < length [?p0, ?p1] \<and> key_value ([?p0, ?p1] ! i) = Some (k, v)
          \<and> (\<forall>j. i < j \<and> j < length [?p0, ?p1]
                 \<longrightarrow> fst (the (key_value ([?p0, ?p1] ! j))) \<noteq> k)
          \<longrightarrow> d k = Some v"
    by (elim exE conjE)
  have dom: "dom d = {KStr ''object''}"
    unfolding keys by (simp add: kv0 kv1)
  have "d (KStr ''object'') = Some (JStr ''vm-b'')"
    using last [rule_format, of 1 "KStr ''object''" "JStr ''vm-b''"] by (simp add: kv1)
  with run dom kv0 kv1 show ?thesis by simp
qed

subsection \<open>The guards on the filter arguments\<close>

lemma map_of_set_item: "map_of (set_item ms k v) = (map_of ms)(k \<mapsto> v)"
  by (induction ms) (auto simp: fun_upd_twist)

lemma valid_append: "valid h x \<Longrightarrow> valid (h @ g) x"
  by (cases x) auto

lemma is_not_new_list_valid:
  "valid h x \<Longrightarrow> is_not_new_list h x = (True, h @ [JList []])"
  by (cases x) (auto simp: is_not_new_list_def new_list_def)

lemma set_if_not_new_list_valid:
  "valid h x \<Longrightarrow> set_if_not_new_list h ps k x = (set_item ps k x, h @ [JList []])"
  by (simp add: set_if_not_new_list_def is_not_new_list_valid)

lemma request_params_valid:
  assumes "valid h alert_ids" and "valid h alert_state_list" and "valid h alert_severity_list"
    and "valid h region_ids" and "valid h cluster_ids"
  shows "\<exists>ps. request_params h start_time end_time max_fetch
           alert_ids alert_state_list alert_severity_list region_ids cluster_ids
         = (ps, h @ [JList [], JList [], JList [], JList [], JList []])
       \<and> map_of ps ''alertIdList'' = Some alert_ids
       \<and> map_of ps ''alertStateList'' = Some alert_state_list
       \<and> map_of ps ''alertSeverityList'' = Some alert_severity_list
       \<and> map_of ps ''region_ids'' = Some region_ids
       \<and> map_of ps ''clusterIdentifiers'' = Some cluster_ids"
  using assms
  by (simp add: request_params_def Let_def set_if_not_new_list_valid valid_append
      map_of_set_item)

lemma map_of_deref:
  "map_of (map (\<lambda>m. (fst m, deref h (snd m))) ps) k = map_option (deref h) (map_of ps k)"
  by (induction ps) auto

lemma default_state_list_is_empty:
  assumes "take 5 h = module_heap"
  shows "deref (h @ g) default_alert_state_list = JList []"
proof -
  have len: "5 \<le> length h"
  proof (rule ccontr)
    assume "\<not> 5 \<le> length h"
    then have "length (take 5 h) < 5" by simp
    with assms show False by (simp add: module_heap_def)
  qed
  have "h ! 1 = take 5 h ! 1" by simp
  also have "\<dots> = JList []"
    unfolding assms by (simp add: module_heap_def)
  finally show ?thesis
    using len by (simp add: default_alert_state_list_def nth_append)
qed

text \<open>
  Claim C10. Whatever the five filter arguments are, each guard \<open>x is not []\<close> is true:
  the list on its right is a new object, and an argument is an object that existed
  before. So the five keys are always written into the request parameters, and when the
  state list is left at its default, the empty list, the request carries the empty list
  as \<open>alertStateList\<close> in place of the initial \<open>kOpen\<close>.
\<close>

theorem filter_guards_always_true:
  assumes "valid h alert_ids" and "valid h alert_state_list" and "valid h alert_severity_list"
    and "valid h region_ids" and "valid h cluster_ids"
  shows "(\<forall>g. fst (is_not_new_list (h @ g) alert_ids)
            \<and> fst (is_not_new_list (h @ g) alert_state_list)
            \<and> fst (is_not_new_list (h @ g) alert_severity_list)
            \<and> fst (is_not_new_list (h @ g) region_ids)
            \<and> fst (is_not_new_list (h @ g) cluster_ids))
       \<and> (\<exists>ps h'. request_params h start_time end_time max_fetch
                     alert_ids alert_state_list alert_severity_list region_ids cluster_ids
                   = (ps, h')
              \<and> map_of ps ''alertIdList'' = Some alert_ids
              \<and> map_of ps ''alertStateList'' = Some alert_state_list
              \<and> map_of ps ''alertSeverityList'' = Some alert_severity_list
              \<and> map_of ps ''region_ids'' = Some region_ids
              \<and> map_of ps ''clusterIdentifiers'' = Some cluster_ids)
       \<and> (alert_state_list = default_alert_state_list \<and> take 5 h = module_heap \<longrightarrow>
            request_param
              (alerts_request h start_time end_time max_fetch
                 alert_ids alert_state_list alert_severity_list region_ids cluster_ids)
              ''alertStateList'' = Some (JList []))"
proof (intro conjI allI impI)
  fix g
  show "fst (is_not_new_list (h @ g) alert_ids)"
    and "fst (is_not_new_list (h @ g) alert_state_list)"
    and "fst (is_not_new_list (h @ g) alert_severity_list)"
    and "fst (is_not_new_list (h @ g) region_ids)"
    and "fst (is_not_new_list (h @ g) cluster_ids)"
    using assms by (simp_all add: is_not_new_list_valid valid_append)
next
  from request_params_valid [OF assms]
  show "\<exists>ps h'. request_params h start_time end_time max_fetch
                     alert_ids alert_state_list alert_severity_list region_ids cluster_ids
                   = (ps, h')
              \<and> map_of ps ''alertIdList'' = Some alert_ids
              \<and> map_of ps ''alertStateList'' = Some alert_state_list
              \<and> map_of ps ''alertSeverityList'' = Some alert_severity_list
              \<and> map_of ps ''region_ids'' = Some region_ids
              \<and> map_of ps ''clusterIdentifiers'' = Some cluster_ids"
    by blast
next
  assume dflt: "alert_state_list = default_alert_state_list \<and> take 5 h = module_heap"
  from request_params_valid [OF assms, of start_time end_time max_fetch]
  obtain ps where
    ps: "request_params h start_time end_time max_fetch
           alert_ids alert_state_list alert_severity_list region_ids cluster_ids
         = (ps, h @ [JList [], JList [], JList [], JList [], JList []])"
    and st: "map_of ps ''alertStateList'' = Some alert_state_list"
    by blast
  have "deref (h @ [JList [], JList [], JList [], JList [], JList []]) alert_state_list
          = JList []"
    using dflt default_state_list_is_empty by blast
  then show "request_param
              (alerts_request h start_time end_time max_fetch
                 alert_ids alert_state_list alert_severity_list region_ids cluster_ids)
              ''alertStateList'' = Some (JList [])"
    by (simp add: alerts_request_def ps map_of_deref st)
qed

theorem filter_guards_always_true_witness:
  "valid module_heap default_alert_ids
   \<and> valid module_heap default_alert_state_list
   \<and> valid module_heap default_alert_severity_list
   \<and> valid module_heap default_region_ids
   \<and> valid module_heap default_cluster_ids
   \<and> take 5 module_heap = module_heap
   \<and> fst (is_not_new_list module_heap default_alert_state_list)
   \<and> request_param default_alerts_request ''alertStateList'' = Some (JList [])"
proof -
  have v: "valid module_heap default_alert_ids" "valid module_heap default_alert_state_list"
    "valid module_heap default_alert_severity_list" "valid module_heap default_region_ids"
    "valid module_heap default_cluster_ids"
    by (simp_all add: module_heap_def default_alert_ids_def default_alert_state_list_def
        default_alert_severity_list_def default_region_ids_def default_cluster_ids_def)
  have t: "take 5 module_heap = module_heap"
    by (simp add: module_heap_def)
  from filter_guards_always_true [OF v, of None None "Imm (JInt MAX_FETCH_DEFAULT)"]
  have "fst (is_not_new_list (module_heap @ []) default_alert_state_list)"
    and "request_param default_alerts_request ''alertStateList'' = Some (JList [])"
    using t unfolding default_alerts_request_def by blast+
  with v t show ?thesis by simp
qed

subsection \<open>The scans of the ignore and the restore operation\<close>

lemma default_fetch:
  "get_ransomware_alerts_default e st =
     (bind (service e (trace st) default_alerts_request) filter_ransomware,
      st\<lparr>trace := trace st @ [Http default_alerts_request]\<rparr>)"
  by (simp add: get_ransomware_alerts_default_def get_ransomware_alerts_def http_request_def
      default_alerts_request_def)

lemma default_alerts_request_is_GET:
  "\<exists>ps. default_alerts_request = GET ''/mcm/alerts'' ps"
  unfolding default_alerts_request_def by (rule alerts_request_is_GET)

lemma default_alerts_request_harmless: "\<not> state_changing (Http default_alerts_request)"
proof -
  obtain ps where get: "default_alerts_request = GET ''/mcm/alerts'' ps"
    using default_alerts_request_is_GET by blast
  show ?thesis unfolding get by simp
qed


lemma ignore_loop_no_match:
  "\<forall>a \<in> set alerts. has_properties a \<and> \<not> object_is object_name a \<Longrightarrow>
     ignore_loop object_name alerts = Inr (JStr [])"
proof (induction alerts)
  case Nil
  then show ?case by simp
next
  case (Cons a alerts)
  then obtain d where "alert_properties a = Inr d" and "\<not> matches_object d object_name"
    by (auto simp: has_properties_def object_is_def split: sum.splits)
  with Cons show ?case by simp
qed


lemma critical_and_open_True:
  "critical_and_open a = Inr True \<longleftrightarrow>
     subscript a ''severity'' = Inr (JStr ''kCritical'')
     \<and> subscript a ''alertState'' = Inr (JStr ''kOpen'')"
  by (cases "subscript a ''severity''"; cases "subscript a ''alertState''")
    (auto simp: critical_and_open_def)

lemma restore_candidate_iff:
  "restore_candidate object_name a \<longleftrightarrow>
     critical_and_open a = Inr True \<and> object_is object_name a"
  by (simp add: restore_candidate_def critical_and_open_True)

text \<open>One turn of the restore loop at an alert that is passed.\<close>

lemma restore_loop_pass:
  assumes "restore_readable a" and "\<not> restore_candidate object_name a"
  shows "\<exists>acc'. fst acc' = fst acc
           \<and> restore_loop object_name acc (a # rest) = restore_loop object_name acc' rest"
proof -
  from assms(1) obtain b where b: "critical_and_open a = Inr b"
    by (auto simp: restore_readable_def split: sum.splits)
  show ?thesis
  proof (cases b)
    case False
    with b have "restore_loop object_name acc (a # rest) = restore_loop object_name acc rest"
      by simp
    then show ?thesis by blast
  next
    case True
    with assms(1) b obtain d where d: "alert_properties a = Inr d"
      by (auto simp: restore_readable_def has_properties_def split: sum.splits)
    with assms(2) b True have "\<not> matches_object d object_name"
      by (simp add: restore_candidate_iff object_is_def)
    with b True d have "restore_loop object_name acc (a # rest)
        = restore_loop object_name (fst acc, d) rest"
      by simp
    then show ?thesis by force
  qed
qed



lemma restore_loop_no_candidate:
  "\<forall>a \<in> set alerts. restore_readable a \<and> \<not> restore_candidate object_name a \<Longrightarrow>
     \<exists>d. restore_loop object_name acc alerts = Inr (fst acc, d)"
proof (induction alerts arbitrary: acc)
  case Nil
  then show ?case by (cases acc) simp
next
  case (Cons a alerts)
  then obtain acc' where same: "fst acc' = fst acc"
    and step: "restore_loop object_name acc (a # alerts) = restore_loop object_name acc' alerts"
    using restore_loop_pass [of a object_name acc alerts] by auto
  from Cons have "\<exists>d. restore_loop object_name acc' alerts = Inr (fst acc', d)"
    by simp
  with same step show ?case by simp
qed

text \<open>
  Claim C5. When no fetched alert matches the requested object name, under the test of
  the operation, the ignore operation and the restore operation both raise a
  \<open>ValueError\<close> whose message has the requested name in it, and the only request they
  have sent is the fetch, which changes nothing.
\<close>

theorem no_match_is_not_found:
  assumes "get_ransomware_alerts_default e st = (Inr alerts, st1)"
    and "map_of args ''object_name'' = Some name"
  shows "((\<forall>a \<in> set alerts. has_properties a \<and> \<not> object_is (Some name) a) \<longrightarrow>
            ignore_ransomware_anomaly_command e st args =
              (Inl (ValueError
                 (''CohesityHelios error: no anomalous object found by the given name: ''
                    @ name @ ''. '')), st1))
       \<and> ((\<forall>a \<in> set alerts. restore_readable a \<and> \<not> restore_candidate (Some name) a) \<longrightarrow>
            restore_latest_clean_snapshot e st args =
              (Inl (ValueError
                 (''CohesityHelios error: no anomalous object found by the given name ''
                    @ name @ ''.'')), st1))
       \<and> trace st1 = trace st @ [Http default_alerts_request]
       \<and> \<not> state_changing (Http default_alerts_request)"
proof (intro conjI impI)
  assume "\<forall>a \<in> set alerts. has_properties a \<and> \<not> object_is (Some name) a"
  then have "ignore_loop (Some name) alerts = Inr (JStr [])"
    by (rule ignore_loop_no_match)
  with assms show "ignore_ransomware_anomaly_command e st args =
              (Inl (ValueError
                 (''CohesityHelios error: no anomalous object found by the given name: ''
                    @ name @ ''. '')), st1)"
    by (simp add: ignore_ransomware_anomaly_command_def format_arg_def)
next
  assume "\<forall>a \<in> set alerts. restore_readable a \<and> \<not> restore_candidate (Some name) a"
  then obtain d where "restore_loop (Some name) (JStr [], Map.empty) alerts = Inr (JStr [], d)"
    using restore_loop_no_candidate [of alerts "Some name" "(JStr [], Map.empty)"] by auto
  with assms show "restore_latest_clean_snapshot e st args =
              (Inl (ValueError
                 (''CohesityHelios error: no anomalous object found by the given name ''
                    @ name @ ''.'')), st1)"
    by (simp add: restore_latest_clean_snapshot_def format_arg_def)
next
  show "trace st1 = trace st @ [Http default_alerts_request]"
    using assms(1) by (auto simp: default_fetch)
next
  show "\<not> state_changing (Http default_alerts_request)"
    by (rule default_alerts_request_harmless)
qed

subsection \<open>Restore, then resolve\<close>

lemma build_restore_request_trace:
  "build_restore_request e st restore_properties = (r, st') \<Longrightarrow> trace st' = trace st"
  by (auto simp: build_restore_request_def get_current_millis_def datetime_now_def
      split: sum.splits)

lemma restore_then_resolve_cases:
  assumes "restore_then_resolve e st cluster_id payload alert_id = (r, st')"
  obtains
    (raised) hs err where
      "service e (trace st) (restore_request payload hs) = Inl err"
      "r = Inl err"
      "trace st' = trace st @ [Http (restore_request payload hs)]"
  | (unsent) hs v where
      "service e (trace st) (restore_request payload hs) = Inr v"
      "r = Inl TypeError"
      "trace st' = trace st @ [Http (restore_request payload hs)]"
  | (sent) hs v i where
      "service e (trace st) (restore_request payload hs) = Inr v"
      "trace st' = trace st @ [Http (restore_request payload hs), Http (resolve_request i)]"
      "r = (case service e (trace st @ [Http (restore_request payload hs)]) (resolve_request i) of
              Inl err \<Rightarrow> Inl err | Inr w \<Rightarrow> Inr ())"
proof -
  let ?hs = "set_item (client_headers e) ''clusterid'' cluster_id"
  let ?req = "restore_request payload ?hs"
  have post: "restore_vm_object e st cluster_id payload =
      (service e (trace st) ?req, st\<lparr>trace := trace st @ [Http ?req]\<rparr>)"
    by (simp add: restore_vm_object_def http_request_def restore_request_def)
  show thesis
  proof (cases "service e (trace st) ?req")
    case (Inl err)
    with assms post have "r = Inl err" and "trace st' = trace st @ [Http ?req]"
      by (auto simp: restore_then_resolve_def)
    with Inl show thesis by (rule raised)
  next
    case (Inr v)
    have no_string: thesis if "patch_alert_status e (st\<lparr>trace := trace st @ [Http ?req]\<rparr>)
        alert_id ''kResolved'' = (Inl TypeError, st\<lparr>trace := trace st @ [Http ?req]\<rparr>)"
    proof -
      from assms post Inr that have "r = Inl TypeError" and "trace st' = trace st @ [Http ?req]"
        by (auto simp: restore_then_resolve_def resolve_ransomware_alert_by_id_def)
      with Inr show thesis by (rule unsent)
    qed
    show thesis
    proof (cases alert_id)
      case (JStr i)
      let ?res = "service e (trace st @ [Http ?req]) (resolve_request i)"
      have patch: "resolve_ransomware_alert_by_id e (st\<lparr>trace := trace st @ [Http ?req]\<rparr>) alert_id
          = (?res, st\<lparr>trace := trace st @ [Http ?req, Http (resolve_request i)]\<rparr>)"
        using JStr
        by (simp add: resolve_ransomware_alert_by_id_def patch_alert_status_def http_request_def
            resolve_request_def)
      from assms post Inr patch
      have "trace st' = trace st @ [Http ?req, Http (resolve_request i)]"
        and "r = (case ?res of Inl err \<Rightarrow> Inl err | Inr w \<Rightarrow> Inr ())"
        by (cases ?res; auto simp: restore_then_resolve_def)+
      with Inr show thesis by (rule sent)
    qed (simp_all add: no_string patch_alert_status_def)
  qed
qed

text \<open>
  Claim C6. The traces of the restore operation, after the fetch: nothing more; or the
  restore request alone, when it raised (the error of the operation is then the error of
  that request) or when it succeeded and the resolution raised before sending anything;
  or the restore request, answered with success, followed by the resolve request, and then
  an error of the resolve request is the error of the operation. So a resolve request is
  sent only after the restore request has returned successfully.
\<close>

theorem resolve_only_after_restore:
  assumes "restore_latest_clean_snapshot e st args = (r, st')"
  shows "\<exists>evs. trace st' = trace st @ Http default_alerts_request # evs
     \<and> (evs = []
        \<or> (\<exists>payload hs err.
              evs = [Http (restore_request payload hs)]
              \<and> service e (trace st @ [Http default_alerts_request])
                   (restore_request payload hs) = Inl err
              \<and> r = Inl err)
        \<or> (\<exists>payload hs v.
              evs = [Http (restore_request payload hs)]
              \<and> service e (trace st @ [Http default_alerts_request])
                   (restore_request payload hs) = Inr v
              \<and> r = Inl TypeError)
        \<or> (\<exists>payload hs v i.
              evs = [Http (restore_request payload hs), Http (resolve_request i)]
              \<and> service e (trace st @ [Http default_alerts_request])
                   (restore_request payload hs) = Inr v
              \<and> r = (case service e
                            (trace st @ [Http default_alerts_request,
                                         Http (restore_request payload hs)])
                            (resolve_request i) of
                        Inl err \<Rightarrow> Inl err
                      | Inr w \<Rightarrow> Inr (''Restored object '' @ format_arg (map_of args ''object_name'')
                                        @ ''.''))))"
proof -
  obtain fetched st1 where fetch: "get_ransomware_alerts_default e st = (fetched, st1)"
    by (cases "get_ransomware_alerts_default e st")
  then have t1: "trace st1 = trace st @ [Http default_alerts_request]"
    by (auto simp: default_fetch)
  have stop: ?thesis if "trace st' = trace st1"
    using that t1 by simp
  show ?thesis
  proof (cases fetched)
    case (Inl err)
    with assms fetch have "st' = st1"
      by (simp add: restore_latest_clean_snapshot_def)
    then show ?thesis using stop by simp
  next
    case alerts: (Inr resp)
    show ?thesis
    proof (cases "restore_loop (map_of args ''object_name'') (JStr [], Map.empty) resp")
      case (Inl err)
      with assms fetch alerts have "st' = st1"
        by (simp add: restore_latest_clean_snapshot_def)
      then show ?thesis using stop by simp
    next
      case (Inr found)
      obtain alert_id restore_properties where found: "found = (alert_id, restore_properties)"
        by (cases found)
      show ?thesis
      proof (cases "alert_id = JStr []")
        case True
        with assms fetch alerts Inr found have "st' = st1"
          by (simp add: restore_latest_clean_snapshot_def)
        then show ?thesis using stop by simp
      next
        case False
        obtain built st2 where build: "build_restore_request e st1 restore_properties = (built, st2)"
          by (cases "build_restore_request e st1 restore_properties")
        then have t2: "trace st2 = trace st @ [Http default_alerts_request]"
          using t1 by (simp add: build_restore_request_trace)
        show ?thesis
        proof (cases built)
          case (Inl err)
          with assms fetch alerts Inr found False build have "st' = st2"
            by (simp add: restore_latest_clean_snapshot_def)
          then show ?thesis using stop t1 t2 by simp
        next
          case request: (Inr cp)
          obtain cluster_id payload where cp: "cp = (cluster_id, payload)"
            by (cases cp)
          obtain rr st3 where
            calls: "restore_then_resolve e st2 cluster_id payload alert_id = (rr, st3)"
            by (cases "restore_then_resolve e st2 cluster_id payload alert_id")
          have run: "restore_latest_clean_snapshot e st args =
              (case rr of Inl err \<Rightarrow> (Inl err, st3)
               | Inr u \<Rightarrow> (Inr (''Restored object '' @ format_arg (map_of args ''object_name'')
                                 @ ''.''), st3))"
            using fetch alerts Inr found False build request cp calls
            by (simp add: restore_latest_clean_snapshot_def)
          have st': "st' = st3"
            using assms run by (cases rr) simp_all
          from calls show ?thesis
          proof (cases rule: restore_then_resolve_cases)
            case (raised hs err)
            have "r = Inl err"
              using assms run raised(2) by simp
            moreover have "trace st' = trace st @ Http default_alerts_request
                # [Http (restore_request payload hs)]"
              using raised(3) t2 st' by simp
            moreover have "service e (trace st @ [Http default_alerts_request])
                (restore_request payload hs) = Inl err"
              using raised(1) t2 by simp
            ultimately show ?thesis by blast
          next
            case (unsent hs v)
            have "r = Inl TypeError"
              using assms run unsent(2) by simp
            moreover have "trace st' = trace st @ Http default_alerts_request
                # [Http (restore_request payload hs)]"
              using unsent(3) t2 st' by simp
            moreover have "service e (trace st @ [Http default_alerts_request])
                (restore_request payload hs) = Inr v"
              using unsent(1) t2 by simp
            ultimately show ?thesis by blast
          next
            case (sent hs v i)
            let ?res = "service e (trace st @ [Http default_alerts_request,
                                         Http (restore_request payload hs)])
                            (resolve_request i)"
            have "r = (case ?res of
                        Inl err \<Rightarrow> Inl err
                      | Inr w \<Rightarrow> Inr (''Restored object '' @ format_arg (map_of args ''object_name'')
                                        @ ''.''))"
              using assms run sent(3) t2 by (cases ?res) simp_all
            moreover have "trace st' = trace st @ Http default_alerts_request
                # [Http (restore_request payload hs), Http (resolve_request i)]"
              using sent(2) t2 st' by simp
            moreover have "service e (trace st @ [Http default_alerts_request])
                (restore_request payload hs) = Inr v"
              using sent(1) t2 by simp
            ultimately show ?thesis by blast
          qed
        qed
      qed
    qed
  qed
qed

subsection \<open>The operations on the example data\<close>

lemma example_alert_fields [simp]:
  "subscript (example_alert i code sev state obj) ''id'' = Inr (JStr i)"
  "subscript (example_alert i code sev state obj) ''severity'' = Inr (JStr sev)"
  "subscript (example_alert i code sev state obj) ''alertState'' = Inr (JStr state)"
  by (simp_all add: example_alert_def)

lemma example_alert_properties [simp]:
  "alert_properties (example_alert i code sev state obj) = Inr (example_properties obj)"
  by (simp add: alert_properties_def example_alert_def get_property_dict_def set_property_def
      example_property_def example_properties_def)

lemma example_properties_object [simp]:
  "example_properties obj (KStr ''object'') = Some (JStr obj)"
  by (simp add: example_properties_def)

lemma example_alert_object_is [simp]:
  "has_properties (example_alert i code sev state obj)"
  "object_is (Some name) (example_alert i code sev state obj) \<longleftrightarrow> obj = name"
  by (simp_all add: has_properties_def object_is_def matches_object_def prop_get_def eq_arg_def)

lemma example_alert_restore [simp]:
  "restore_readable (example_alert i code sev state obj)"
  "restore_candidate (Some name) (example_alert i code sev state obj) \<longleftrightarrow>
     sev = ''kCritical'' \<and> state = ''kOpen'' \<and> obj = name"
  by (simp_all add: restore_readable_def restore_candidate_def critical_and_open_def)

lemma example_fetch:
  "get_ransomware_alerts_default (example_env (Inr example_response) p q) st =
     (Inr [example_alert ''1'' ''CE01516011'' ''kWarning'' ''kOpen'' ''vm-a'',
           example_alert ''2'' ''CE01516011'' ''kCritical'' ''kOpen'' ''vm-b''],
      st\<lparr>trace := trace st @ [Http default_alerts_request]\<rparr>)"
proof -
  have "service (example_env (Inr example_response) p q) (trace st) default_alerts_request
      = Inr example_response"
    unfolding default_alerts_request_def by (rule example_env_answers_alerts_request)
  then show ?thesis
    by (simp add: default_fetch filter_ransomware_def example_response_def RANSOMWARE_CODE_def)
qed



theorem no_match_is_not_found_witness:
  "get_ransomware_alerts_default
      (example_env (Inr example_response) (Inr JNull) (Inr JNull)) (example_state [])
     = (Inr [example_alert ''1'' ''CE01516011'' ''kWarning'' ''kOpen'' ''vm-a'',
             example_alert ''2'' ''CE01516011'' ''kCritical'' ''kOpen'' ''vm-b''],
        (example_state [])\<lparr>trace := [Http default_alerts_request]\<rparr>)
   \<and> \<not> object_is (Some ''vm-z'') (example_alert ''1'' ''CE01516011'' ''kWarning'' ''kOpen'' ''vm-a'')
   \<and> \<not> object_is (Some ''vm-z'') (example_alert ''2'' ''CE01516011'' ''kCritical'' ''kOpen'' ''vm-b'')
   \<and> ignore_ransomware_anomaly_command
        (example_env (Inr example_response) (Inr JNull) (Inr JNull)) (example_state [])
        [(''object_name'', ''vm-z'')]
      = (Inl (ValueError
           ''CohesityHelios error: no anomalous object found by the given name: vm-z. ''),
         (example_state [])\<lparr>trace := [Http default_alerts_request]\<rparr>)
   \<and> restore_latest_clean_snapshot
        (example_env (Inr example_response) (Inr JNull) (Inr JNull)) (example_state [])
        [(''object_name'', ''vm-z'')]
      = (Inl (ValueError
           ''CohesityHelios error: no anomalous object found by the given name vm-z.''),
         (example_state [])\<lparr>trace := [Http default_alerts_request]\<rparr>)"
proof -
  let ?e = "example_env (Inr example_response) (Inr JNull) (Inr JNull)"
  let ?a1 = "example_alert ''1'' ''CE01516011'' ''kWarning'' ''kOpen'' ''vm-a''"
  let ?a2 = "example_alert ''2'' ''CE01516011'' ''kCritical'' ''kOpen'' ''vm-b''"
  let ?st1 = "(example_state [])\<lparr>trace := [Http default_alerts_request]\<rparr>"
  have fetch: "get_ransomware_alerts_default ?e (example_state []) = (Inr [?a1, ?a2], ?st1)"
    by (simp add: example_fetch example_state_def)
  have args: "map_of [(''object_name'', ''vm-z'')] ''object_name'' = Some ''vm-z''"
    by simp
  have none: "\<forall>a \<in> set [?a1, ?a2]. has_properties a \<and> \<not> object_is (Some ''vm-z'') a"
    by simp
  have none': "\<forall>a \<in> set [?a1, ?a2]. restore_readable a \<and> \<not> restore_candidate (Some ''vm-z'') a"
    by simp
  from no_match_is_not_found [OF fetch args] none none' fetch
  show ?thesis by simp
qed

lemma example_int_of_str_values [simp]:
  "example_int_of_str ''12'' = Some 12"
  "example_int_of_str ''34'' = Some 34"
  "example_int_of_str ''56'' = Some 56"
  "example_int_of_str ''78'' = Some 78"
  "example_int_of_str ''50'' = Some 50"
  by (simp_all add: example_int_of_str_def isdigit_def)

lemma example_env_fields [simp]:
  "int_of_str (example_env g p q) = example_int_of_str"
  "clock (example_env g p q) n = 1631471400000000 + 1000 * int n"
  "timestamp (example_env g p q) dt = of_int dt / 1000000"
  "localtime (example_env g p q) t = t"
  "client_headers (example_env g p q) =
     [(''apikey'', JStr ''secret''), (''Content-Type'', JStr ''application/json'')]"
  "instance_params (example_env g p q) = [(''max_fetch'', JStr ''50'')]"
  "incidents_sink (example_env g p q) incidents = None"
  "json_dumps (example_env g p q) v = ''{}''"
  by (simp_all add: example_env_def)

lemma example_build_restore_request:
  "\<exists>payload. build_restore_request (example_env g p q) st (example_properties obj)
     = (Inr (JStr ''90'', payload), st\<lparr>clock_reads := Suc (clock_reads st)\<rparr>)"
  by (simp add: build_restore_request_def prop_subscript_def example_properties_def
      restore_object_def get_current_millis_def datetime_now_def)

theorem resolve_only_after_restore_witness:
  "\<exists>payload hs.
     restore_latest_clean_snapshot
       (example_env (Inr example_response) (Inr JNull) (Inl (DemistoException ''resolve failed'')))
       (example_state []) [(''object_name'', ''vm-b'')]
     = (Inl (DemistoException ''resolve failed''),
        \<lparr>trace = [Http default_alerts_request, Http (restore_request payload hs),
                  Http (resolve_request ''2'')],
         last_run = [], clock_reads = 1\<rparr>)
     \<and> service
         (example_env (Inr example_response) (Inr JNull) (Inl (DemistoException ''resolve failed'')))
         [Http default_alerts_request] (restore_request payload hs) = Inr JNull"
proof -
  let ?e = "example_env (Inr example_response) (Inr JNull) (Inl (DemistoException ''resolve failed''))"
  let ?st1 = "(example_state [])\<lparr>trace := [Http default_alerts_request]\<rparr>"
  obtain payload where build: "build_restore_request ?e ?st1 (example_properties ''vm-b'')
      = (Inr (JStr ''90'', payload), ?st1\<lparr>clock_reads := Suc (clock_reads ?st1)\<rparr>)"
    using example_build_restore_request by blast
  let ?hs = "[(''apikey'', JStr ''secret''), (''Content-Type'', JStr ''application/json''),
              (''clusterid'', JStr ''90'')]"
  have calls: "restore_then_resolve ?e (?st1\<lparr>clock_reads := Suc (clock_reads ?st1)\<rparr>)
        (JStr ''90'') payload (JStr ''2'')
      = (Inl (DemistoException ''resolve failed''),
         \<lparr>trace = [Http default_alerts_request, Http (restore_request payload ?hs),
                   Http (resolve_request ''2'')],
          last_run = [], clock_reads = 1\<rparr>)"
    by (simp add: restore_then_resolve_def restore_vm_object_def http_request_def
        resolve_ransomware_alert_by_id_def patch_alert_status_def restore_request_def
        resolve_request_def example_state_def)
  have run: "restore_latest_clean_snapshot ?e (example_state []) [(''object_name'', ''vm-b'')]
      = (Inl (DemistoException ''resolve failed''),
         \<lparr>trace = [Http default_alerts_request, Http (restore_request payload ?hs),
                   Http (resolve_request ''2'')],
          last_run = [], clock_reads = 1\<rparr>)"
    using build calls
    by (simp add: restore_latest_clean_snapshot_def example_fetch critical_and_open_def
        matches_object_def prop_get_def eq_arg_def example_state_def)
  from resolve_only_after_restore [OF run]
  have "service ?e [Http default_alerts_request] (restore_request payload ?hs) = Inr JNull"
    by (auto simp: example_state_def restore_request_def)
  with run show ?thesis by blast
qed

subsection \<open>The fetch window and the watermark\<close>

lemma fetch_window_stored:
  assumes "map_of (last_run st) ''start_time'' = Some (JInt w)"
  shows "fetch_window e st =
     (Inr (w, get_millis_from_date_time e (clock e (clock_reads st))),
      st\<lparr>clock_reads := Suc (clock_reads st)\<rparr>)"
proof -
  from assms have "last_run st \<noteq> []" by auto
  with assms show ?thesis
    by (simp add: fetch_window_def get_current_millis_def datetime_now_def
        get_millis_from_date_time_def)
qed





lemma fetch_incidents_effect:
  assumes "fetch_window e st = (Inr (start_time, end_time), st1)"
    and "fetch_limit e = Inr max_fetch"
    and "get_ransomware_alerts e module_heap st1 (Some start_time) (Some end_time)
           (Imm (JInt max_fetch))
           default_alert_ids default_alert_state_list default_alert_severity_list
           default_region_ids default_cluster_ids = (Inr alerts, st2)"
    and "incidents_loop e [] alerts = Inr incidents"
  shows "fetch_incidents_command e st =
           ((case incidents_sink e incidents of None \<Rightarrow> Inr () | Some err \<Rightarrow> Inl err),
            st2\<lparr>trace := trace st2 @ [SetLastRun [(''start_time'', JInt end_time)],
                                       Incidents incidents],
                last_run := [(''start_time'', JInt end_time)]\<rparr>)"
  using assms
  by (simp add: fetch_incidents_command_def demisto_incidents_def set_last_run_def)








text \<open>
  The round trip of the watermark: the invocation after a successful one starts its window
  where the window of that one ended.
\<close>

lemma watermark_round_trip:
  assumes "fetch_window e st = (Inr (start_time, end_time), st1)"
    and "fetch_limit e = Inr max_fetch"
    and "get_ransomware_alerts e module_heap st1 (Some start_time) (Some end_time)
           (Imm (JInt max_fetch))
           default_alert_ids default_alert_state_list default_alert_severity_list
           default_region_ids default_cluster_ids = (Inr alerts, st2)"
    and "incidents_loop e [] alerts = Inr incidents"
  shows "\<exists>next_end st1'. fetch_window e' (snd (fetch_incidents_command e st))
           = (Inr (end_time, next_end), st1')"
  by (simp add: fetch_incidents_effect [OF assms] fetch_window_stored)

subsection \<open>The occurrence time of an incident\<close>

lemma round_half_even_of_int: "round_half_even (of_int n) = n"
  by (simp add: round_half_even_def)

lemma get_date_time_from_usecs:
  "get_date_time_from_millis e (of_int n / 1000) =
     (let dt = localtime e (n div 1000000) * 1000000 + n mod 1000000
      in if datetime_min \<le> dt \<and> dt \<le> datetime_max then Inr dt
         else Inl (ValueError ''year is out of range''))"
  by (simp add: get_date_time_from_millis_def fromtimestamp_def round_half_even_of_int)

lemma strftime_seconds:
  "strftime_DATE_FORMAT (s * 1000000 + n mod 1000000) = strftime_DATE_FORMAT (s * 1000000)"
proof -
  have "(s * 1000000 + n mod 1000000) div 1000000 = s"
    by simp
  then show ?thesis
    by (simp add: strftime_DATE_FORMAT_def)
qed

text \<open>
  What the mapper writes: the wall clock of the host at \<open>latestTimestampUsecs\<close>, to the
  second, with the letter Z.
\<close>

lemma occurred_is_local_time:
  assumes "dict_get alert ''latestTimestampUsecs'' (JInt 0) = Inr (JInt n)"
    and "create_ransomware_incident e alert = Inr incident"
  shows "inc_occurred incident = strftime_DATE_FORMAT (localtime e (n div 1000000) * 1000000)"
proof -
  let ?dt = "localtime e (n div 1000000) * 1000000 + n mod 1000000"
  from assms(2) obtain property_dict where "alert_properties alert = Inr property_dict"
    by (cases "alert_properties alert") (simp_all add: create_ransomware_incident_def)
  with assms have "inc_occurred incident = strftime_DATE_FORMAT ?dt"
    by (auto simp: create_ransomware_incident_def get_date_time_from_usecs Let_def bind_def
        split: sum.splits if_splits)
  then show ?thesis
    by (simp add: strftime_seconds)
qed

text \<open>On a host whose local time is UTC this is the UTC timestamp.\<close>

lemma occurred_on_utc_host:
  assumes "\<And>t. localtime e t = t"
    and "dict_get alert ''latestTimestampUsecs'' (JInt 0) = Inr (JInt n)"
    and "create_ransomware_incident e alert = Inr incident"
  shows "inc_occurred incident = utc_iso8601 n"
  using occurred_is_local_time [OF assms(2,3)] assms(1)
  by (simp add: utc_iso8601_def)

text \<open>
  Claim C7. The incident mapper takes \<open>latestTimestampUsecs\<close>, or 0 when the alert has
  none, and formats it to the second as \<open>%Y-%m-%dT%H:%M:%SZ\<close>; but the date and time
  it formats are those of the local time zone of the host, because
  \<open>datetime.fromtimestamp\<close> is called with no time zone. On a host one hour east of UTC an
  alert with no \<open>latestTimestampUsecs\<close> gets the occurrence time 1970-01-01T01:00:00Z,
  and the UTC timestamp of 0 is 1970-01-01T00:00:00Z.
\<close>

theorem occurred_on_eastern_host:
  "(\<exists>incident. create_ransomware_incident example_env_east example_alert_without_time
        = Inr incident
      \<and> inc_occurred incident = ''1970-01-01T01:00:00Z'')
   \<and> dict_get example_alert_without_time ''latestTimestampUsecs'' (JInt 0) = Inr (JInt 0)
   \<and> utc_iso8601 0 = ''1970-01-01T00:00:00Z''"
proof (intro conjI)
  have "strftime_DATE_FORMAT 3600000000 = ''1970-01-01T01:00:00Z''"
    by code_simp
  moreover have "get_date_time_from_millis example_env_east 0 = Inr 3600000000"
    by (simp add: get_date_time_from_millis_def fromtimestamp_def round_half_even_def
        example_env_east_def datetime_min_def datetime_max_def)
  ultimately show "\<exists>incident.
      create_ransomware_incident example_env_east example_alert_without_time = Inr incident
      \<and> inc_occurred incident = ''1970-01-01T01:00:00Z''"
    by (simp add: create_ransomware_incident_def example_alert_without_time_def
        alert_properties_def get_property_dict_def set_property_def example_property_def
        convert_to_demisto_severity_int_def)
  show "dict_get example_alert_without_time ''latestTimestampUsecs'' (JInt 0) = Inr (JInt 0)"
    by (simp add: example_alert_without_time_def)
  show "utc_iso8601 0 = ''1970-01-01T00:00:00Z''"
    by code_simp
qed

end
